theory Spec2Isabelle
  imports Main
begin

section \<open>The Chart Manager controller (pkg/controller/controller.go)\<close>

text \<open>
  A shallow embedding of the reconciliation core: the three event handlers
  \<open>addFunc\<close>, \<open>updateFunc\<close>, \<open>deleteFunc\<close>, the post-apply sequence
  \<open>updateStatus\<close>, the status writer \<open>updateChartMgrStatus\<close> with \<open>put\<close>, the
  convergence wait \<open>waitForReleaseToDeploy\<close> and the entry point \<open>Run\<close>.

  Each handler body is the body of the goroutine the Go handler starts, run to
  completion on its own; the interleaving of several goroutines is not modelled.
  Every effect of a body is recorded in a \<open>world\<close>: a logical clock, the heap of
  resource objects (pointers are addresses, so that copying and aliasing are visible),
  and the trace of calls made to the logger, the executor, the release handle and the
  backing store. A Go panic is the left summand of the result.
\<close>

subsection \<open>Data\<close>

text \<open>A Go \<open>error\<close> is identified with its \<open>Error()\<close> text; a nil error is \<open>None\<close>.\<close>

type_synonym go_error = string

text \<open>
  \<open>crv1alpha1.ChartMgrState\<close> is a string type: the source converts it with
  \<open>string(rls.Status())\<close> and prints it with \<open>%s\<close>.
\<close>

type_synonym ChartMgrState = string

record ChartMgrStatus =
  State :: ChartMgrState
  ReleaseName :: string
  Message :: string

record ObjectMeta =
  Name :: string
  Namespace :: string

text \<open>
  A \<open>crv1alpha1.ChartManager\<close>: its embedded \<open>ObjectMeta\<close> (field \<open>Meta\<close>, so that
  \<open>chartmgr.Name\<close> is \<open>Name (Meta cm)\<close>), its chart specification, which is opaque to
  the controller and therefore a type parameter, and its status.
\<close>

record 'spec ChartManager =
  Meta :: ObjectMeta
  Spec :: 'spec
  Status :: ChartMgrStatus

text \<open>
  Modelled from the spec: \<open>lmhelm.Release\<close>, declared in pkg/lmhelm, outside the
  source at hand. Section 3 of the spec gives a release handle a release name, a
  current reported status and a readiness predicate; \<open>Name()\<close> and \<open>Status()\<close> read
  the first two. \<open>Deployed()\<close> asks the executor, so its answer and its duration
  depend on when it is called: \<open>deployed_at r t\<close> is the answer of a call begun at
  time \<open>t\<close>, \<open>deployed_latency r t\<close> is how long that call takes.

  The controller holds a handle as a pointer \<open>*lmhelm.Release\<close>. The model has
  handles only: by Section 6 of the spec the executor answers with a handle and an
  error, and by Section 4.2 it returns a handle, possibly a partial one, with an error
  too. What the methods of \<open>lmhelm.Release\<close> do on a nil pointer is decided in
  pkg/lmhelm and is not modelled.

  \<open>Deployed()\<close> belongs to the surface of the external deployment-action executor
  (Section 6 of the spec), which is reached over the executor connection (Section 5):
  a call takes some time, possibly none, and the model leaves that time to the handle.
\<close>

record Release =
  release_name :: string
  release_status :: ChartMgrState
  deployed_at :: "nat \<Rightarrow> bool"
  deployed_latency :: "nat \<Rightarrow> nat"

datatype panic = NilPointerDereference | InterfaceConversion

text \<open>
  The dynamic type of an \<open>interface{}\<close> argument of a handler: a pointer to a
  \<open>ChartManager\<close> (an address of the heap) or anything else.
\<close>

datatype obj = ChartManagerPtr nat | OtherObject

datatype level = DebugLevel | InfoLevel | ErrorLevel

datatype 'spec event =
    LogEntry level string
  | CreateOrUpdateCall "'spec ChartManager"
  | DeleteCall "'spec ChartManager"
  | DeployedCall string nat
  | PutRequest string string string "'spec ChartManager"
  | InformerStarted

record 'spec world =
  now :: nat
  heap :: "'spec ChartManager list"
  trace :: "'spec event list"

text \<open>
  The collaborators of the controller, as parameters: what the executor answers for a
  resource (a Go pair of a handle and an error, a nil error being \<open>None\<close>), the
  predicate \<open>lmhelm.CreateOnly\<close>, the constant \<open>crv1alpha1.ChartMgrResourcePlural\<close>,
  and what the backing store answers to a PUT of a body under a name and namespace.
\<close>

record 'spec Controller =
  createOrUpdate_result :: "'spec ChartManager \<Rightarrow> Release \<times> go_error option"
  delete_result :: "'spec ChartManager \<Rightarrow> Release \<times> go_error option"
  CreateOnly :: "'spec ChartManager \<Rightarrow> bool"
  ChartMgrResourcePlural :: string
  put_result :: "string \<Rightarrow> string \<Rightarrow> 'spec ChartManager \<Rightarrow> go_error option"

subsection \<open>Time\<close>

text \<open>Durations are nanoseconds, as in Go's \<open>time\<close> package.\<close>

definition Second :: nat where
  "Second = 1000000000"

definition Minute :: nat where
  "Minute = 60 * Second"

subsection \<open>Primitive effects\<close>

definition logf :: "level \<Rightarrow> string \<Rightarrow> 'spec world \<Rightarrow> 'spec world" where
  "logf l msg w = w\<lparr>trace := trace w @ [LogEntry l msg]\<rparr>"

definition deref :: "nat \<Rightarrow> 'spec world \<Rightarrow> 'spec ChartManager option" where
  "deref p w = (if p < length (heap w) then Some (heap w ! p) else None)"

text \<open>
  Modelled from the spec: \<open>DeepCopy\<close>, generated into zz_generated.deepcopy.go,
  outside the source at hand. Section 4.4 of the spec: an updated copy of the resource
  is produced and the caller's object is not touched. The copy is a new object at a
  fresh address.
\<close>

definition DeepCopy :: "nat \<Rightarrow> 'spec world \<Rightarrow> (panic + nat) \<times> 'spec world" where
  "DeepCopy p w =
     (case deref p w of
        None \<Rightarrow> (Inl NilPointerDereference, w)
      | Some cm \<Rightarrow> (Inr (length (heap w)), w\<lparr>heap := heap w @ [cm]\<rparr>))"

text \<open>The assignment \<open>chartmgrCopy.Status = s\<close> through the pointer.\<close>

definition set_Status :: "nat \<Rightarrow> ChartMgrStatus \<Rightarrow> 'spec world \<Rightarrow> 'spec world" where
  "set_Status p s w = w\<lparr>heap := (heap w)[p := (heap w ! p)\<lparr>Status := s\<rparr>]\<rparr>"

text \<open>
  Modelled from the spec: \<open>CreateOrUpdateChartMgr\<close> and \<open>DeleteChartMgr\<close>, functions
  of this package declared outside the source at hand. Section 6 of the spec gives them
  as \<open>createOrUpdate(resource) -> (ReleaseHandle, error)\<close> and
  \<open>delete(resource) -> (ReleaseHandle, error)\<close>; the answer is the controller
  parameter, the call is recorded in the trace.
\<close>

definition CreateOrUpdateChartMgr ::
  "'spec Controller \<Rightarrow> nat \<Rightarrow> 'spec world
     \<Rightarrow> (panic + Release \<times> go_error option) \<times> 'spec world" where
  "CreateOrUpdateChartMgr c chartmgr w =
     (case deref chartmgr w of
        None \<Rightarrow> (Inl NilPointerDereference, w)
      | Some cm \<Rightarrow>
          (Inr (createOrUpdate_result c cm), w\<lparr>trace := trace w @ [CreateOrUpdateCall cm]\<rparr>))"

definition DeleteChartMgr ::
  "'spec Controller \<Rightarrow> nat \<Rightarrow> 'spec world
     \<Rightarrow> (panic + Release \<times> go_error option) \<times> 'spec world" where
  "DeleteChartMgr c chartmgr w =
     (case deref chartmgr w of
        None \<Rightarrow> (Inl NilPointerDereference, w)
      | Some cm \<Rightarrow>
          (Inr (delete_result c cm), w\<lparr>trace := trace w @ [DeleteCall cm]\<rparr>))"

text \<open>
  One call of \<open>rls.Deployed()\<close>: it is recorded with the time it begins, and the clock
  moves by the duration of the call.
\<close>

definition Deployed :: "Release \<Rightarrow> 'spec world \<Rightarrow> bool \<times> 'spec world" where
  "Deployed r w =
     (deployed_at r (now w),
      w\<lparr>now := now w + deployed_latency r (now w),
        trace := trace w @ [DeployedCall (release_name r) (now w)]\<rparr>)"

subsection \<open>The convergence wait\<close>

text \<open>
  \<open>waitForReleaseToDeploy\<close> creates \<open>time.After(2 * time.Minute)\<close> and
  \<open>time.NewTicker(30 * time.Second)\<close> at its invocation, time \<open>start\<close>. In logical
  time the timeout channel is readable from \<open>start + 2 * Minute\<close> on, and the ticker
  offers a tick at \<open>start + k * 30 * Second\<close> for \<open>k = 1, 2, ...\<close> into a channel that
  buffers one tick and drops the ticks that find it full.

  \<open>recv_tick start woke w\<close> is the receive \<open><-c\<close> of the loop's post statement, begun
  at the time of \<open>w\<close> by a loop that last emptied the channel at time \<open>woke\<close>: when a
  tick fell into the interval since \<open>woke\<close> it is in the buffer and the receive returns
  at once, otherwise the receive blocks until the next tick.
\<close>

definition recv_tick :: "nat \<Rightarrow> nat \<Rightarrow> 'spec world \<Rightarrow> 'spec world" where
  "recv_tick start woke w =
     (if (woke - start) div (30 * Second) < (now w - start) div (30 * Second)
      then w
      else w\<lparr>now := start + ((now w - start) div (30 * Second) + 1) * (30 * Second)\<rparr>)"

text \<open>
  \<open>wait_loop start r w\<close> is the loop \<open>for c := ticker.C; ; <-c { select { ... } }\<close>
  from a wake at the time of \<open>w\<close> on. The \<open>select\<close> takes the case \<open><-timeout\<close> when the
  timeout channel is readable and returns the error; otherwise its \<open>default\<close> branch
  logs, calls \<open>rls.Deployed()\<close> and returns nil when the answer is true. The post
  statement then receives the next tick. Time passes in \<open>Deployed()\<close> and in the
  receive only.
\<close>

function wait_loop :: "nat \<Rightarrow> Release \<Rightarrow> 'spec world \<Rightarrow> go_error option \<times> 'spec world" where
  "wait_loop start r w =
     (if start + 2 * Minute \<le> now w
      then (Some ''Timed out waiting for release to deploy'', w)
      else
        (case Deployed r (logf DebugLevel (''Checking status of release '' @ release_name r) w) of
           (deployed, w') \<Rightarrow>
             if deployed then (None, w')
             else wait_loop start r (recv_tick start (now w) w')))"
  by pat_completeness auto
termination
proof (relation "measure (\<lambda>(start, r, w). start + 2 * Minute - now w)")
  show "wf (measure (\<lambda>(start, r, w::'spec world). start + 2 * Minute - now w))"
    by simp
next
  fix start :: nat and r :: Release and w :: "'spec world" and deployed and w' :: "'spec world"
  assume lt: "\<not> start + 2 * Minute \<le> now w"
    and p: "(deployed, w') =
      Deployed r (logf DebugLevel (''Checking status of release '' @ release_name r) w)"
    and "\<not> deployed"
  have w': "now w' = now w + deployed_latency r (now w)"
    using p by (simp add: Deployed_def logf_def)
  have pos: "0 < 30 * Second"
    by (simp add: Second_def)
  have "now w < now (recv_tick start (now w) w')"
  proof (cases "(now w - start) div (30 * Second) < (now w' - start) div (30 * Second)")
    case True
    then have "now w - start < now w' - start"
      by (metis div_le_mono linorder_not_less)
    then show ?thesis
      using True by (simp add: recv_tick_def)
  next
    case False
    have "now w' - start < ((now w' - start) div (30 * Second) + 1) * (30 * Second)"
      using pos by (metis Suc_eq_plus1 dividend_less_div_times mult.commute mult_Suc_right)
    then have "now w' < start + ((now w' - start) div (30 * Second) + 1) * (30 * Second)"
      by linarith
    then show ?thesis
      using False w' by (simp add: recv_tick_def)
  qed
  then show "((start, r, recv_tick start (now w) w'), (start, r, w))
      \<in> measure (\<lambda>(start, r, w). start + 2 * Minute - now w)"
    using lt by simp
qed

text \<open>
  The timer and the ticker are created at the invocation; the loop starts with a wake
  at once. No panic arises in the wait: its result has the type of the results of the
  other operations.
\<close>

definition waitForReleaseToDeploy ::
  "Release \<Rightarrow> 'spec world \<Rightarrow> (panic + go_error option) \<times> 'spec world" where
  "waitForReleaseToDeploy rls w =
     (case wait_loop (now w) rls w of (err, w') \<Rightarrow> (Inr err, w'))"

subsection \<open>The status writer\<close>

text \<open>
  The request \<open>c.RESTClient.Put().Name(..).Namespace(..).Resource(..).Body(chartmgr).Do()\<close>:
  one PUT, recorded with the name, the namespace and the body read through the pointer
  at that moment; its error is what the store answers.
\<close>

definition put ::
  "'spec Controller \<Rightarrow> nat \<Rightarrow> 'spec world \<Rightarrow> (panic + go_error option) \<times> 'spec world" where
  "put c chartmgr w =
     (case deref chartmgr w of
        None \<Rightarrow> (Inl NilPointerDereference, w)
      | Some cm \<Rightarrow>
          (Inr (put_result c (Name (Meta cm)) (Namespace (Meta cm)) cm),
           w\<lparr>trace := trace w @
             [PutRequest (Name (Meta cm)) (Namespace (Meta cm)) (ChartMgrResourcePlural c) cm]\<rparr>))"

text \<open>
  \<open>updateChartMgrStatus\<close> has no result in Go: the model returns a unit, or the panic.
\<close>

definition updateChartMgrStatus ::
  "'spec Controller \<Rightarrow> nat \<Rightarrow> Release \<Rightarrow> string \<Rightarrow> 'spec world
     \<Rightarrow> (panic + unit) \<times> 'spec world" where
  "updateChartMgrStatus c chartmgr rls message w =
     (case DeepCopy chartmgr
             (logf DebugLevel
               (''Updating Chart Manager status: state='' @ release_status rls @
                '' release='' @ release_name rls) w) of
        (Inl e, w1) \<Rightarrow> (Inl e, w1)
      | (Inr chartmgrCopy, w1) \<Rightarrow>
          (case put c chartmgrCopy
                  (set_Status chartmgrCopy
                     \<lparr>State = release_status rls, ReleaseName = release_name rls,
                      Message = message\<rparr> w1) of
             (Inl e, w2) \<Rightarrow> (Inl e, w2)
           | (Inr None, w2) \<Rightarrow> (Inr (), w2)
           | (Inr (Some err), w2) \<Rightarrow>
               (Inr (), logf ErrorLevel (''Failed to update status: '' @ err) w2)))"

subsection \<open>The post-apply sequence\<close>

definition updateStatus ::
  "'spec Controller \<Rightarrow> nat \<Rightarrow> Release \<Rightarrow> 'spec world
     \<Rightarrow> (panic + go_error option) \<times> 'spec world" where
  "updateStatus c chartmgr rls w =
     (case waitForReleaseToDeploy rls w of
        (Inl e, w1) \<Rightarrow> (Inl e, w1)
      | (Inr (Some err), w1) \<Rightarrow>
          (case updateChartMgrStatus c chartmgr rls err
                  (logf ErrorLevel
                    (''Failed to verify that release '' @ release_name rls @
                     '' deployed: '' @ err) w1) of
             (Inl e, w2) \<Rightarrow> (Inl e, w2)
           | (Inr u, w2) \<Rightarrow> (Inr (Some err), w2))
      | (Inr None, w1) \<Rightarrow>
          (case deref chartmgr w1 of
             None \<Rightarrow> (Inl NilPointerDereference, w1)
           | Some cm \<Rightarrow>
               (case updateChartMgrStatus c chartmgr rls (release_status rls)
                       (logf InfoLevel
                         (''Chart Manager '' @ Name (Meta cm) @ '' release '' @
                          release_name rls @ '' status is Deployed'') w1) of
                  (Inl e, w2) \<Rightarrow> (Inl e, w2)
                | (Inr u, w2) \<Rightarrow> (Inr None, w2))))"

subsection \<open>The handlers\<close>

text \<open>
  The type assertion \<open>obj.(*crv1alpha1.ChartManager)\<close> panics on any other dynamic
  type. A handler has no result: the model returns a unit, or the panic.
\<close>

definition addFunc ::
  "'spec Controller \<Rightarrow> obj \<Rightarrow> 'spec world \<Rightarrow> (panic + unit) \<times> 'spec world" where
  "addFunc c obj w =
     (case obj of
        OtherObject \<Rightarrow> (Inl InterfaceConversion, w)
      | ChartManagerPtr chartmgr \<Rightarrow>
          (case CreateOrUpdateChartMgr c chartmgr w of
             (Inl e, w1) \<Rightarrow> (Inl e, w1)
           | (Inr (rls, Some err), w1) \<Rightarrow>
               updateChartMgrStatus c chartmgr rls err (logf ErrorLevel err w1)
           | (Inr (rls, None), w1) \<Rightarrow>
               (case updateStatus c chartmgr rls w1 of
                  (Inl e, w2) \<Rightarrow> (Inl e, w2)
                | (Inr (Some err), w2) \<Rightarrow> (Inr (), w2)
                | (Inr None, w2) \<Rightarrow>
                    (case deref chartmgr w2 of
                       None \<Rightarrow> (Inl NilPointerDereference, w2)
                     | Some cm \<Rightarrow>
                         (Inr (),
                          logf InfoLevel (''Created Chart Manager: '' @ Name (Meta cm))
                            (logf InfoLevel
                              (''Chart Manager '' @ Name (Meta cm) @ '' status is '' @
                               release_status rls) w2))))))"

definition updateFunc ::
  "'spec Controller \<Rightarrow> obj \<Rightarrow> obj \<Rightarrow> 'spec world \<Rightarrow> (panic + unit) \<times> 'spec world" where
  "updateFunc c oldObj newObj w =
     (case oldObj of
        OtherObject \<Rightarrow> (Inl InterfaceConversion, w)
      | ChartManagerPtr oldChartMgr \<Rightarrow>
          (case newObj of
             OtherObject \<Rightarrow> (Inl InterfaceConversion, w)
           | ChartManagerPtr newChartMgr \<Rightarrow>
               (case CreateOrUpdateChartMgr c newChartMgr w of
                  (Inl e, w1) \<Rightarrow> (Inl e, w1)
                | (Inr (rls, Some err), w1) \<Rightarrow>
                    updateChartMgrStatus c newChartMgr rls err (logf ErrorLevel err w1)
                | (Inr (rls, None), w1) \<Rightarrow>
                    (case deref newChartMgr w1 of
                       None \<Rightarrow> (Inl NilPointerDereference, w1)
                     | Some cm \<Rightarrow>
                         if CreateOnly c cm
                         then (Inr (),
                               logf InfoLevel
                                 (''CreateOnly mode. Ignoring update of chart manager '' @
                                  Name (Meta cm) @ ''.'') w1)
                         else
                           (case updateStatus c newChartMgr rls w1 of
                              (Inl e, w2) \<Rightarrow> (Inl e, w2)
                            | (Inr (Some err), w2) \<Rightarrow> (Inr (), w2)
                            | (Inr None, w2) \<Rightarrow>
                                (case deref newChartMgr w2 of
                                   None \<Rightarrow> (Inl NilPointerDereference, w2)
                                 | Some cm' \<Rightarrow>
                                     (Inr (),
                                      logf InfoLevel
                                        (''Updated Chart Manager: '' @ Name (Meta cm')) w2)))))))"

definition deleteFunc ::
  "'spec Controller \<Rightarrow> obj \<Rightarrow> 'spec world \<Rightarrow> (panic + unit) \<times> 'spec world" where
  "deleteFunc c obj w =
     (case obj of
        OtherObject \<Rightarrow> (Inl InterfaceConversion, w)
      | ChartManagerPtr chartmgr \<Rightarrow>
          (case DeleteChartMgr c chartmgr w of
             (Inl e, w1) \<Rightarrow> (Inl e, w1)
           | (Inr (rls, Some err), w1) \<Rightarrow>
               (Inr (), logf ErrorLevel (''Failed to delete Chart Manager: '' @ err) w1)
           | (Inr (rls, None), w1) \<Rightarrow>
               (case deref chartmgr w1 of
                  None \<Rightarrow> (Inl NilPointerDereference, w1)
                | Some cm \<Rightarrow>
                    (Inr (), logf InfoLevel (''Deleted Chart Manager: '' @ Name (Meta cm)) w1))))"

subsection \<open>The entry point\<close>

text \<open>
  A \<open>context.Context\<close>, by what becomes of it: either \<open>Done()\<close> is never closed, or it
  is closed and \<open>Err()\<close> is from then on the given error. By the contract of the
  context package \<open>Err()\<close> is non-nil once \<open>Done()\<close> is closed (\<open>context.Canceled\<close>
  when the context was cancelled, \<open>context.DeadlineExceeded\<close> when its deadline passed).
\<close>

datatype Context = NeverDone | DoneWith go_error

text \<open>A blocking call returns a value, or blocks for ever.\<close>

datatype 'a outcome = Returns 'a | BlocksForever

text \<open>
  \<open>manage\<close> builds the informer over the three handlers and starts it with
  \<open>go controller.Run(ctx.Done())\<close>; it always returns nil.
\<close>

definition manage ::
  "'spec Controller \<Rightarrow> Context \<Rightarrow> 'spec world \<Rightarrow> go_error option \<times> 'spec world" where
  "manage c ctx w = (None, w\<lparr>trace := trace w @ [InformerStarted]\<rparr>)"

definition Run ::
  "'spec Controller \<Rightarrow> Context \<Rightarrow> 'spec world \<Rightarrow> go_error option outcome \<times> 'spec world" where
  "Run c ctx w =
     (case manage c ctx w of
        (Some err, w1) \<Rightarrow> (Returns (Some err), w1)
      | (None, w1) \<Rightarrow>
          (case ctx of
             NeverDone \<Rightarrow>
               (BlocksForever, logf InfoLevel ''Successfully started Chart Manager controller'' w1)
           | DoneWith err \<Rightarrow>
               (Returns (Some err),
                logf InfoLevel ''Successfully started Chart Manager controller'' w1)))"

subsection \<open>Reading a trace\<close>

fun is_put :: "'spec event \<Rightarrow> bool" where
  "is_put (PutRequest n ns res body) = True"
| "is_put e = False"

fun is_check :: "'spec event \<Rightarrow> bool" where
  "is_check (DeployedCall n t) = True"
| "is_check e = False"


text \<open>The status writes and the readiness checks a world has seen.\<close>

definition puts :: "'spec world \<Rightarrow> 'spec event list" where
  "puts w = filter is_put (trace w)"

definition checks :: "'spec world \<Rightarrow> 'spec event list" where
  "checks w = filter is_check (trace w)"

text \<open>
  The status write of Section 4.4 of the spec for a resource \<open>cm\<close>, a handle \<open>r\<close> and
  a message: one PUT addressed by the name and namespace of the resource, whose body
  is the resource with the status triple (state and release name of the handle, the
  message).
\<close>

definition status_write ::
  "'spec Controller \<Rightarrow> 'spec ChartManager \<Rightarrow> Release \<Rightarrow> string \<Rightarrow> 'spec event" where
  "status_write c cm r message =
     PutRequest (Name (Meta cm)) (Namespace (Meta cm)) (ChartMgrResourcePlural c)
       (cm\<lparr>Status :=
          \<lparr>State = release_status r, ReleaseName = release_name r, Message = message\<rparr>\<rparr>)"

text \<open>What one readiness check begun at time \<open>t\<close> adds to the trace.\<close>

definition check_events :: "Release \<Rightarrow> nat \<Rightarrow> 'spec event list" where
  "check_events r t =
     [LogEntry DebugLevel (''Checking status of release '' @ release_name r),
      DeployedCall (release_name r) t]"

text \<open>
  Modelled from the spec: the state \<open>Failed\<close> of \<open>crv1alpha1.ChartMgrState\<close>, declared
  outside the source at hand. Section 3 of the spec lists the states Unknown, Deployed,
  Failed; the controller itself names none of them.
\<close>

definition ChartMgrStateFailed :: ChartMgrState where
  "ChartMgrStateFailed = ''Failed''"

subsection \<open>Concrete inputs\<close>

text \<open>
  One resource, a world that holds it at address 0, and families of handles and
  controllers to instantiate the theorems with.
\<close>

definition example_chartmgr :: "string ChartManager" where
  "example_chartmgr =
     \<lparr>Meta = \<lparr>Name = ''demo'', Namespace = ''default''\<rparr>, Spec = ''chart'',
      Status = \<lparr>State = '''', ReleaseName = '''', Message = ''''\<rparr>\<rparr>"

definition example_world :: "string world" where
  "example_world = \<lparr>now = 0, heap = [example_chartmgr], trace = []\<rparr>"

definition example_release :: "ChartMgrState \<Rightarrow> (nat \<Rightarrow> bool) \<Rightarrow> nat \<Rightarrow> Release" where
  "example_release st ready lat =
     \<lparr>release_name = ''rel'', release_status = st, deployed_at = ready,
      deployed_latency = (\<lambda>t. lat)\<rparr>"

definition example_controller ::
  "Release \<times> go_error option \<Rightarrow> bool \<Rightarrow> go_error option \<Rightarrow> string Controller" where
  "example_controller answer createOnly store =
     \<lparr>createOrUpdate_result = (\<lambda>cm. answer), delete_result = (\<lambda>cm. answer),
      CreateOnly = (\<lambda>cm. createOnly), ChartMgrResourcePlural = ''chartmgrs'',
      put_result = (\<lambda>n ns body. store)\<rparr>"

text \<open>The loop equation is unfolded by hand, one iteration at a time.\<close>

declare wait_loop.simps [simp del]

section \<open>Properties\<close>

subsection \<open>Basic facts\<close>

lemma logf_simps:
  "trace (logf l m w) = trace w @ [LogEntry l m]"
  "heap (logf l m w) = heap w"
  "now (logf l m w) = now w"
  by (simp_all add: logf_def)

lemma updateChartMgrStatus_valid:
  assumes "chartmgr < length (heap w)"
  shows "updateChartMgrStatus c chartmgr r message w =
    (Inr (),
     w\<lparr>heap := heap w @
         [(heap w ! chartmgr)\<lparr>Status :=
            \<lparr>State = release_status r, ReleaseName = release_name r, Message = message\<rparr>\<rparr>],
       trace := trace w @
         [LogEntry DebugLevel
            (''Updating Chart Manager status: state='' @ release_status r @
             '' release='' @ release_name r),
          status_write c (heap w ! chartmgr) r message] @
         (case put_result c (Name (Meta (heap w ! chartmgr))) (Namespace (Meta (heap w ! chartmgr)))
                 ((heap w ! chartmgr)\<lparr>Status :=
                   \<lparr>State = release_status r, ReleaseName = release_name r, Message = message\<rparr>\<rparr>) of
            None \<Rightarrow> []
          | Some err \<Rightarrow> [LogEntry ErrorLevel (''Failed to update status: '' @ err)])\<rparr>)"
  using assms
  by (simp add: updateChartMgrStatus_def DeepCopy_def put_def set_Status_def deref_def logf_def
      status_write_def split: option.split)

lemma updateChartMgrStatus_frame:
  "take (length (heap w)) (heap (snd (updateChartMgrStatus c chartmgr rls message w))) = heap w"
proof (cases "chartmgr < length (heap w)")
  case True
  then show ?thesis by (simp add: updateChartMgrStatus_valid)
next
  case False
  then show ?thesis
    by (simp add: updateChartMgrStatus_def DeepCopy_def deref_def logf_def)
qed

subsection \<open>The status writer\<close>

text \<open>
  Claim C6 (copy-on-write status update). Whatever its arguments, \<open>updateChartMgrStatus\<close>
  leaves every object that was on the heap as it was. Called with a pointer to a resource
  and a handle, it returns normally, allocates exactly one new object, the copy of the
  resource carrying the status triple (state and release name of the handle, the
  message), leaves the caller's object unchanged, and issues exactly one PUT, addressed
  by the name and namespace of the resource, with that copy as body.
\<close>

theorem updateChartMgrStatus_copy_on_write:
  "take (length (heap w)) (heap (snd (updateChartMgrStatus c chartmgr rls message w))) = heap w \<and>
   (chartmgr < length (heap w) \<longrightarrow>
      fst (updateChartMgrStatus c chartmgr r message w) = Inr () \<and>
      heap (snd (updateChartMgrStatus c chartmgr r message w)) =
        heap w @
          [(heap w ! chartmgr)\<lparr>Status :=
             \<lparr>State = release_status r, ReleaseName = release_name r, Message = message\<rparr>\<rparr>] \<and>
      heap (snd (updateChartMgrStatus c chartmgr r message w)) ! chartmgr =
        heap w ! chartmgr \<and>
      puts (snd (updateChartMgrStatus c chartmgr r message w)) =
        puts w @
          [PutRequest (Name (Meta (heap w ! chartmgr))) (Namespace (Meta (heap w ! chartmgr)))
             (ChartMgrResourcePlural c)
             ((heap w ! chartmgr)\<lparr>Status :=
               \<lparr>State = release_status r, ReleaseName = release_name r, Message = message\<rparr>\<rparr>)])"
proof (intro conjI impI)
  show "take (length (heap w)) (heap (snd (updateChartMgrStatus c chartmgr rls message w))) = heap w"
    by (rule updateChartMgrStatus_frame)
next
  assume v: "chartmgr < length (heap w)"
  show "fst (updateChartMgrStatus c chartmgr r message w) = Inr ()"
    by (simp add: updateChartMgrStatus_valid [OF v])
  show "heap (snd (updateChartMgrStatus c chartmgr r message w)) =
        heap w @
          [(heap w ! chartmgr)\<lparr>Status :=
             \<lparr>State = release_status r, ReleaseName = release_name r, Message = message\<rparr>\<rparr>]"
    by (simp add: updateChartMgrStatus_valid [OF v])
  show "heap (snd (updateChartMgrStatus c chartmgr r message w)) ! chartmgr =
        heap w ! chartmgr"
    using v by (simp add: updateChartMgrStatus_valid [OF v] nth_append)
  show "puts (snd (updateChartMgrStatus c chartmgr r message w)) =
        puts w @
          [PutRequest (Name (Meta (heap w ! chartmgr))) (Namespace (Meta (heap w ! chartmgr)))
             (ChartMgrResourcePlural c)
             ((heap w ! chartmgr)\<lparr>Status :=
               \<lparr>State = release_status r, ReleaseName = release_name r, Message = message\<rparr>\<rparr>)]"
    by (simp add: updateChartMgrStatus_valid [OF v] puts_def status_write_def split: option.split)
qed

theorem updateChartMgrStatus_copy_on_write_witness:
  "heap (snd (updateChartMgrStatus (example_controller
      (example_release ''DEPLOYED'' (\<lambda>t. True) 0, None) False None) 0
       (example_release ''DEPLOYED'' (\<lambda>t. True) 0) ''DEPLOYED'' example_world)) =
     [example_chartmgr,
      example_chartmgr\<lparr>Status :=
        \<lparr>State = ''DEPLOYED'', ReleaseName = ''rel'', Message = ''DEPLOYED''\<rparr>\<rparr>] \<and>
   puts (snd (updateChartMgrStatus (example_controller
       (example_release ''DEPLOYED'' (\<lambda>t. True) 0, None) False None) 0
       (example_release ''DEPLOYED'' (\<lambda>t. True) 0) ''DEPLOYED'' example_world)) =
     [PutRequest ''demo'' ''default'' ''chartmgrs''
        (example_chartmgr\<lparr>Status :=
          \<lparr>State = ''DEPLOYED'', ReleaseName = ''rel'', Message = ''DEPLOYED''\<rparr>\<rparr>)]"
  using updateChartMgrStatus_copy_on_write
    [of example_world "example_controller
        (example_release ''DEPLOYED'' (\<lambda>t. True) 0, None) False None" 0
      "example_release ''DEPLOYED'' (\<lambda>t. True) 0" "''DEPLOYED''"
      "example_release ''DEPLOYED'' (\<lambda>t. True) 0"]
  by (simp add: example_world_def example_controller_def example_release_def
      example_chartmgr_def puts_def)

subsection \<open>The convergence wait\<close>

lemma wait_loop_timeout:
  "start + 2 * Minute \<le> now w \<Longrightarrow>
   wait_loop start r w = (Some ''Timed out waiting for release to deploy'', w)"
  by (subst wait_loop.simps) simp

lemma wait_loop_ready:
  "\<not> start + 2 * Minute \<le> now w \<Longrightarrow> deployed_at r (now w) \<Longrightarrow>
   wait_loop start r w =
     (None, w\<lparr>now := now w + deployed_latency r (now w),
              trace := trace w @ check_events r (now w)\<rparr>)"
  by (subst wait_loop.simps) (simp add: Deployed_def logf_def check_events_def)

lemma wait_loop_not_ready:
  "\<not> start + 2 * Minute \<le> now w \<Longrightarrow> \<not> deployed_at r (now w) \<Longrightarrow>
   wait_loop start r w =
     wait_loop start r
       (recv_tick start (now w)
          (w\<lparr>now := now w + deployed_latency r (now w),
             trace := trace w @ check_events r (now w)\<rparr>))"
  by (subst wait_loop.simps) (simp add: Deployed_def logf_def check_events_def)

lemma recv_tick_simps:
  "heap (recv_tick start woke w) = heap w"
  "trace (recv_tick start woke w) = trace w"
  by (simp_all add: recv_tick_def)

lemma wait_loop_heap: "heap (snd (wait_loop start r w)) = heap w"
proof (induction start r w rule: wait_loop.induct)
  case (1 start r w)
  show ?case
  proof (cases "start + 2 * Minute \<le> now w")
    case True
    then show ?thesis by (simp add: wait_loop_timeout)
  next
    case False
    show ?thesis
    proof (cases "deployed_at r (now w)")
      case True
      then show ?thesis using False by (simp add: wait_loop_ready)
    next
      case nr: False
      have "heap (snd (wait_loop start r
          (recv_tick start (now w)
            (snd (Deployed r
              (logf DebugLevel (''Checking status of release '' @ release_name r) w)))))) =
        heap (recv_tick start (now w)
            (snd (Deployed r
              (logf DebugLevel (''Checking status of release '' @ release_name r) w))))"
        using False nr by (intro "1.IH" [OF False]) (simp_all add: Deployed_def logf_simps)
      then show ?thesis
        using False nr
        by (simp add: wait_loop_not_ready recv_tick_simps Deployed_def logf_def check_events_def)
    qed
  qed
qed

lemma wait_loop_puts: "puts (snd (wait_loop start r w)) = puts w"
proof (induction start r w rule: wait_loop.induct)
  case (1 start r w)
  show ?case
  proof (cases "start + 2 * Minute \<le> now w")
    case True
    then show ?thesis by (simp add: wait_loop_timeout)
  next
    case False
    show ?thesis
    proof (cases "deployed_at r (now w)")
      case True
      then show ?thesis using False by (simp add: wait_loop_ready puts_def check_events_def)
    next
      case nr: False
      have "puts (snd (wait_loop start r
          (recv_tick start (now w)
            (snd (Deployed r
              (logf DebugLevel (''Checking status of release '' @ release_name r) w)))))) =
        puts (recv_tick start (now w)
            (snd (Deployed r
              (logf DebugLevel (''Checking status of release '' @ release_name r) w))))"
        using False nr by (intro "1.IH" [OF False]) (simp_all add: Deployed_def logf_simps)
      then show ?thesis
        using False nr
        by (simp add: wait_loop_not_ready recv_tick_simps Deployed_def logf_def check_events_def
            puts_def)
    qed
  qed
qed


lemma wait_loop_never_ready_before_deadline:
  "\<forall>t<start + 2 * Minute. \<not> deployed_at r t \<Longrightarrow>
   fst (wait_loop start r w) = Some ''Timed out waiting for release to deploy''"
proof (induction start r w rule: wait_loop.induct)
  case (1 start r w)
  show ?case
  proof (cases "start + 2 * Minute \<le> now w")
    case True
    then show ?thesis by (simp add: wait_loop_timeout)
  next
    case False
    then have nr: "\<not> deployed_at r (now w)"
      using "1.prems" by simp
    have eq: "wait_loop start r w = wait_loop start r
        (recv_tick start (now w)
          (snd (Deployed r
            (logf DebugLevel (''Checking status of release '' @ release_name r) w))))"
      using False nr by (simp add: wait_loop_not_ready Deployed_def logf_def check_events_def)
    show ?thesis
      unfolding eq
      using False nr "1.prems"
      by (intro "1.IH" [OF False]) (simp_all add: Deployed_def logf_simps)
  qed
qed

text \<open>
  Claim C9 (timeout is examined before readiness). At every wake of the loop the
  timeout channel is examined first: when the deadline of 2 minutes has been reached at
  a wake, the loop returns the timeout error and the world is unchanged, so
  \<open>Deployed()\<close> is not called. Hence a handle whose \<open>Deployed()\<close> answers false to
  every call begun before the deadline never yields success: the wait returns the
  timeout error. (In logical time the timeout channel is readable exactly from the
  deadline on, and a call of \<open>Deployed()\<close> answers for the time at which it begins.)
\<close>
theorem timeout_examined_before_readiness:
  "(start + 2 * Minute \<le> now w \<longrightarrow>
      wait_loop start r w = (Some ''Timed out waiting for release to deploy'', w)) \<and>
   ((\<forall>t<now w + 2 * Minute. \<not> deployed_at r t) \<longrightarrow>
      fst (waitForReleaseToDeploy r w) =
        Inr (Some ''Timed out waiting for release to deploy''))"
proof (intro conjI impI)
  assume "start + 2 * Minute \<le> now w"
  then show "wait_loop start r w = (Some ''Timed out waiting for release to deploy'', w)"
    by (rule wait_loop_timeout)
next
  assume "\<forall>t<now w + 2 * Minute. \<not> deployed_at r t"
  then have "fst (wait_loop (now w) r w) = Some ''Timed out waiting for release to deploy''"
    by (rule wait_loop_never_ready_before_deadline)
  then show "fst (waitForReleaseToDeploy r w) =
      Inr (Some ''Timed out waiting for release to deploy'')"
    by (simp add: waitForReleaseToDeploy_def case_prod_unfold)
qed

theorem timeout_examined_before_readiness_witness:
  "wait_loop 0 (example_release ''PENDING'' (\<lambda>t. 2 * Minute \<le> t) 0)
      (example_world\<lparr>now := 2 * Minute\<rparr>) =
     (Some ''Timed out waiting for release to deploy'', example_world\<lparr>now := 2 * Minute\<rparr>) \<and>
   fst (waitForReleaseToDeploy (example_release ''PENDING'' (\<lambda>t. 2 * Minute \<le> t) 0)
      example_world) = Inr (Some ''Timed out waiting for release to deploy'')"
  using timeout_examined_before_readiness
      [of 0 "example_world\<lparr>now := 2 * Minute\<rparr>"
        "example_release ''PENDING'' (\<lambda>t. 2 * Minute \<le> t) 0"]
    timeout_examined_before_readiness
      [of 0 example_world "example_release ''PENDING'' (\<lambda>t. 2 * Minute \<le> t) 0"]
  by (simp add: example_world_def example_release_def)
















subsection \<open>The handlers on an executor error\<close>

lemma CreateOrUpdateChartMgr_valid:
  "chartmgr < length (heap w) \<Longrightarrow>
   CreateOrUpdateChartMgr c chartmgr w =
     (Inr (createOrUpdate_result c (heap w ! chartmgr)),
      w\<lparr>trace := trace w @ [CreateOrUpdateCall (heap w ! chartmgr)]\<rparr>)"
  by (simp add: CreateOrUpdateChartMgr_def deref_def)

lemma addFunc_error_path:
  assumes "chartmgr < length (heap w)"
    and "createOrUpdate_result c (heap w ! chartmgr) = (rls, Some err)"
  shows "addFunc c (ChartManagerPtr chartmgr) w =
    updateChartMgrStatus c chartmgr rls err
      (w\<lparr>trace := trace w @ [CreateOrUpdateCall (heap w ! chartmgr), LogEntry ErrorLevel err]\<rparr>)"
  using assms by (simp add: addFunc_def CreateOrUpdateChartMgr_valid logf_def)

lemma updateFunc_error_path:
  assumes "newChartMgr < length (heap w)"
    and "createOrUpdate_result c (heap w ! newChartMgr) = (rls, Some err)"
  shows "updateFunc c (ChartManagerPtr oldChartMgr) (ChartManagerPtr newChartMgr) w =
    updateChartMgrStatus c newChartMgr rls err
      (w\<lparr>trace := trace w @ [CreateOrUpdateCall (heap w ! newChartMgr), LogEntry ErrorLevel err]\<rparr>)"
  using assms by (simp add: updateFunc_def CreateOrUpdateChartMgr_valid logf_def)

lemma error_path_status_write:
  assumes v: "chartmgr < length (heap w)"
  shows "fst (updateChartMgrStatus c chartmgr r err
      (w\<lparr>trace := trace w @ [CreateOrUpdateCall (heap w ! chartmgr), LogEntry ErrorLevel err]\<rparr>)) = Inr ()"
    and "puts (snd (updateChartMgrStatus c chartmgr r err
      (w\<lparr>trace := trace w @ [CreateOrUpdateCall (heap w ! chartmgr), LogEntry ErrorLevel err]\<rparr>))) =
      puts w @ [status_write c (heap w ! chartmgr) r err]"
    and "checks (snd (updateChartMgrStatus c chartmgr r err
      (w\<lparr>trace := trace w @ [CreateOrUpdateCall (heap w ! chartmgr), LogEntry ErrorLevel err]\<rparr>))) =
      checks w"
    and "now (snd (updateChartMgrStatus c chartmgr r err
      (w\<lparr>trace := trace w @ [CreateOrUpdateCall (heap w ! chartmgr), LogEntry ErrorLevel err]\<rparr>))) =
      now w"
  using v
  by (simp_all add: updateChartMgrStatus_valid puts_def checks_def status_write_def
      split: option.split)

text \<open>
  Claim C4 (executor error in \<open>addFunc\<close> and \<open>updateFunc\<close>), as amended. When the
  executor's create-or-update returns an error together with a handle, the handler
  issues exactly one status write, whose state is the state the handle reports
  (\<open>rls.Status()\<close>; the handler does not set it to Failed), whose message is the error
  text and whose release name is the name of the handle; it makes no readiness check,
  the clock does not move, and it returns. \<open>updateFunc\<close> does exactly what \<open>addFunc\<close>
  does.
\<close>
theorem executor_error_status_write:
  assumes "chartmgr < length (heap w)"
    and "createOrUpdate_result c (heap w ! chartmgr) = (r, Some err)"
  shows "fst (addFunc c (ChartManagerPtr chartmgr) w) = Inr () \<and>
    puts (snd (addFunc c (ChartManagerPtr chartmgr) w)) =
      puts w @
        [PutRequest (Name (Meta (heap w ! chartmgr))) (Namespace (Meta (heap w ! chartmgr)))
           (ChartMgrResourcePlural c)
           ((heap w ! chartmgr)\<lparr>Status :=
             \<lparr>State = release_status r, ReleaseName = release_name r, Message = err\<rparr>\<rparr>)] \<and>
    checks (snd (addFunc c (ChartManagerPtr chartmgr) w)) = checks w \<and>
    now (snd (addFunc c (ChartManagerPtr chartmgr) w)) = now w \<and>
    updateFunc c (ChartManagerPtr oldChartMgr) (ChartManagerPtr chartmgr) w =
      addFunc c (ChartManagerPtr chartmgr) w"
  using assms
  by (simp add: addFunc_error_path [OF assms] updateFunc_error_path [OF assms]
      error_path_status_write status_write_def)

theorem executor_error_status_write_witness:
  "puts (snd (addFunc
      (example_controller
          (example_release ''FAILED'' (\<lambda>t. False) 0, Some ''install failed'')
         False None)
      (ChartManagerPtr 0) example_world)) =
     [PutRequest ''demo'' ''default'' ''chartmgrs''
        (example_chartmgr\<lparr>Status :=
          \<lparr>State = ''FAILED'', ReleaseName = ''rel'', Message = ''install failed''\<rparr>\<rparr>)] \<and>
   checks (snd (addFunc
      (example_controller
          (example_release ''FAILED'' (\<lambda>t. False) 0, Some ''install failed'')
         False None)
      (ChartManagerPtr 0) example_world)) = []"
  using executor_error_status_write
    [of 0 example_world
      "example_controller
          (example_release ''FAILED'' (\<lambda>t. False) 0, Some ''install failed'')
         False None"
      "example_release ''FAILED'' (\<lambda>t. False) 0" "''install failed''"]
  by (simp add: example_world_def example_controller_def example_release_def
      example_chartmgr_def puts_def checks_def)

theorem executor_error_state_counterexample:
  "puts (snd (addFunc
      (example_controller
          (example_release ''Unknown'' (\<lambda>t. False) 0, Some ''install failed'')
         False None)
      (ChartManagerPtr 0) example_world)) =
     [PutRequest ''demo'' ''default'' ''chartmgrs''
        (example_chartmgr\<lparr>Status :=
          \<lparr>State = ''Unknown'', ReleaseName = ''rel'', Message = ''install failed''\<rparr>\<rparr>)] \<and>
   ''Unknown'' \<noteq> ChartMgrStateFailed"
  by (simp add: addFunc_def CreateOrUpdateChartMgr_def updateChartMgrStatus_def DeepCopy_def
      put_def set_Status_def deref_def logf_def puts_def ChartMgrStateFailed_def
      example_world_def example_controller_def example_release_def example_chartmgr_def)

subsection \<open>Delete, create-only and the entry point\<close>

lemma DeleteChartMgr_valid:
  "chartmgr < length (heap w) \<Longrightarrow>
   DeleteChartMgr c chartmgr w =
     (Inr (delete_result c (heap w ! chartmgr)),
      w\<lparr>trace := trace w @ [DeleteCall (heap w ! chartmgr)]\<rparr>)"
  by (simp add: DeleteChartMgr_def deref_def)

lemma deleteFunc_trace:
  "\<exists>es. snd (deleteFunc c obj w) = w\<lparr>trace := trace w @ es\<rparr> \<and>
     filter is_put es = [] \<and> filter is_check es = []"
proof (cases obj)
  case OtherObject
  then have "snd (deleteFunc c obj w) = w\<lparr>trace := trace w @ []\<rparr>"
    by (simp add: deleteFunc_def)
  then show ?thesis by (intro exI [of _ "[]"]) simp
next
  case (ChartManagerPtr chartmgr)
  show ?thesis
  proof (cases "chartmgr < length (heap w)")
    case False
    then have "snd (deleteFunc c obj w) = w\<lparr>trace := trace w @ []\<rparr>"
      using ChartManagerPtr by (simp add: deleteFunc_def DeleteChartMgr_def deref_def)
    then show ?thesis by (intro exI [of _ "[]"]) simp
  next
    case True
    obtain rls err where d: "delete_result c (heap w ! chartmgr) = (rls, err)"
      by (cases "delete_result c (heap w ! chartmgr)")
    show ?thesis
    proof (cases err)
      case None
      then have "snd (deleteFunc c obj w) =
        w\<lparr>trace := trace w @ [DeleteCall (heap w ! chartmgr),
           LogEntry InfoLevel (''Deleted Chart Manager: '' @ Name (Meta (heap w ! chartmgr)))]\<rparr>"
        using ChartManagerPtr True d
        by (simp add: deleteFunc_def DeleteChartMgr_valid deref_def logf_def)
      then show ?thesis
        by (intro exI [of _ "[DeleteCall (heap w ! chartmgr),
           LogEntry InfoLevel (''Deleted Chart Manager: '' @ Name (Meta (heap w ! chartmgr)))]"]) simp
    next
      case (Some e)
      then have "snd (deleteFunc c obj w) =
        w\<lparr>trace := trace w @ [DeleteCall (heap w ! chartmgr),
           LogEntry ErrorLevel (''Failed to delete Chart Manager: '' @ e)]\<rparr>"
        using ChartManagerPtr True d
        by (simp add: deleteFunc_def DeleteChartMgr_valid logf_def)
      then show ?thesis
        by (intro exI [of _ "[DeleteCall (heap w ! chartmgr),
           LogEntry ErrorLevel (''Failed to delete Chart Manager: '' @ e)]"]) simp
    qed
  qed
qed

text \<open>
  Claim C5 (delete never writes status). Whatever its argument and whatever the
  executor answers, \<open>deleteFunc\<close> issues no status write, makes no readiness check,
  leaves the heap of resource objects as it is and does not wait. Given a pointer to a
  resource, it calls the executor's delete operation once and then logs one line: the
  failure when the executor returned an error, the completion otherwise.
\<close>
theorem deleteFunc_never_writes_status:
  "puts (snd (deleteFunc c obj w)) = puts w \<and>
   checks (snd (deleteFunc c obj w)) = checks w \<and>
   heap (snd (deleteFunc c obj w)) = heap w \<and>
   now (snd (deleteFunc c obj w)) = now w \<and>
   (chartmgr < length (heap w) \<longrightarrow>
      deleteFunc c (ChartManagerPtr chartmgr) w =
        (Inr (),
         w\<lparr>trace := trace w @
           [DeleteCall (heap w ! chartmgr),
            case snd (delete_result c (heap w ! chartmgr)) of
              Some err \<Rightarrow> LogEntry ErrorLevel (''Failed to delete Chart Manager: '' @ err)
            | None \<Rightarrow>
                LogEntry InfoLevel
                  (''Deleted Chart Manager: '' @ Name (Meta (heap w ! chartmgr)))]\<rparr>))"
proof -
  obtain es where es: "snd (deleteFunc c obj w) = w\<lparr>trace := trace w @ es\<rparr>"
    "filter is_put es = []" "filter is_check es = []"
    using deleteFunc_trace by blast
  have "chartmgr < length (heap w) \<Longrightarrow>
      deleteFunc c (ChartManagerPtr chartmgr) w =
        (Inr (),
         w\<lparr>trace := trace w @
           [DeleteCall (heap w ! chartmgr),
            case snd (delete_result c (heap w ! chartmgr)) of
              Some err \<Rightarrow> LogEntry ErrorLevel (''Failed to delete Chart Manager: '' @ err)
            | None \<Rightarrow>
                LogEntry InfoLevel
                  (''Deleted Chart Manager: '' @ Name (Meta (heap w ! chartmgr)))]\<rparr>)"
    by (cases "delete_result c (heap w ! chartmgr)")
      (simp add: deleteFunc_def DeleteChartMgr_valid deref_def logf_def split: option.split)
  then show ?thesis
    using es by (simp add: puts_def checks_def)
qed

theorem deleteFunc_never_writes_status_witness:
  "deleteFunc (example_controller
      (example_release ''DELETED'' (\<lambda>t. False) 0, Some ''release not found'') False None)
      (ChartManagerPtr 0) example_world =
     (Inr (),
      example_world\<lparr>trace :=
        [DeleteCall example_chartmgr,
         LogEntry ErrorLevel ''Failed to delete Chart Manager: release not found'']\<rparr>) \<and>
   deleteFunc (example_controller
       (example_release ''DEPLOYED'' (\<lambda>t. True) 0, None) False None)
      (ChartManagerPtr 0) example_world =
     (Inr (),
      example_world\<lparr>trace :=
        [DeleteCall example_chartmgr,
         LogEntry InfoLevel ''Deleted Chart Manager: demo'']\<rparr>)"
  using deleteFunc_never_writes_status
    [of "example_controller
        (example_release ''DELETED'' (\<lambda>t. False) 0, Some ''release not found'')
        False None" "ChartManagerPtr 0"
      example_world 0]
    deleteFunc_never_writes_status
    [of "example_controller
        (example_release ''DEPLOYED'' (\<lambda>t. True) 0, None)
        False None" "ChartManagerPtr 0" example_world 0]
  by (simp add: example_world_def example_controller_def example_chartmgr_def)

text \<open>
  Claim C2 (create-only suppression). For a resource for which \<open>CreateOnly\<close> holds,
  \<open>updateFunc\<close> still calls the executor's create-or-update operation; after a
  successful call it logs that the update was ignored and returns: it issues no status
  write and makes no readiness check.
\<close>
theorem updateFunc_create_only:
  assumes "newChartMgr < length (heap w)"
    and "createOrUpdate_result c (heap w ! newChartMgr) = (rls, None)"
    and "CreateOnly c (heap w ! newChartMgr)"
  shows "updateFunc c (ChartManagerPtr oldChartMgr) (ChartManagerPtr newChartMgr) w =
      (Inr (),
       w\<lparr>trace := trace w @
         [CreateOrUpdateCall (heap w ! newChartMgr),
          LogEntry InfoLevel
            (''CreateOnly mode. Ignoring update of chart manager '' @
             Name (Meta (heap w ! newChartMgr)) @ ''.'')]\<rparr>) \<and>
    puts (snd (updateFunc c (ChartManagerPtr oldChartMgr) (ChartManagerPtr newChartMgr) w)) =
      puts w \<and>
    checks (snd (updateFunc c (ChartManagerPtr oldChartMgr) (ChartManagerPtr newChartMgr) w)) =
      checks w"
proof -
  have "updateFunc c (ChartManagerPtr oldChartMgr) (ChartManagerPtr newChartMgr) w =
      (Inr (),
       w\<lparr>trace := trace w @
         [CreateOrUpdateCall (heap w ! newChartMgr),
          LogEntry InfoLevel
            (''CreateOnly mode. Ignoring update of chart manager '' @
             Name (Meta (heap w ! newChartMgr)) @ ''.'')]\<rparr>)"
    using assms by (simp add: updateFunc_def CreateOrUpdateChartMgr_valid deref_def logf_def)
  then show ?thesis
    by (simp add: puts_def checks_def)
qed

theorem updateFunc_create_only_witness:
  "updateFunc
      (example_controller (example_release ''DEPLOYED'' (\<lambda>t. True) 0, None) True None)
      (ChartManagerPtr 0) (ChartManagerPtr 0) example_world =
     (Inr (),
      example_world\<lparr>trace :=
        [CreateOrUpdateCall example_chartmgr,
         LogEntry InfoLevel ''CreateOnly mode. Ignoring update of chart manager demo.'']\<rparr>)"
  using updateFunc_create_only
    [of 0 example_world
      "example_controller (example_release ''DEPLOYED'' (\<lambda>t. True) 0, None) True None"
      "example_release ''DEPLOYED'' (\<lambda>t. True) 0" 0]
  by (simp add: example_world_def example_controller_def example_chartmgr_def)

text \<open>
  Claim C8 (lifecycle), as amended. \<open>Run\<close> starts the informer in the background and
  logs that the controller has started; it returns exactly when the context is done,
  and what it returns is then the error of the context (\<open>ctx.Err()\<close>), which is not
  nil: \<open>Run\<close> never returns a nil error, and with a context that is never done it
  blocks for ever.
\<close>
theorem Run_returns_context_error:
  "Run c ctx w =
     (case ctx of NeverDone \<Rightarrow> BlocksForever | DoneWith err \<Rightarrow> Returns (Some err),
      w\<lparr>trace := trace w @
        [InformerStarted,
         LogEntry InfoLevel ''Successfully started Chart Manager controller'']\<rparr>) \<and>
   fst (Run c ctx w) \<noteq> Returns None"
  by (cases ctx) (simp_all add: Run_def manage_def logf_def)

theorem Run_clean_shutdown_counterexample:
  "fst (Run (example_controller
      (example_release ''DEPLOYED'' (\<lambda>t. True) 0, None) False None)
      (DoneWith ''context canceled'')
      example_world) = Returns (Some ''context canceled'')"
  by (simp add: Run_def manage_def logf_def)

subsection \<open>The post-apply sequence\<close>

lemma waitForReleaseToDeploy_frame:
  assumes "waitForReleaseToDeploy r w = (Inr werr, w1)"
  shows "heap w1 = heap w" and "puts w1 = puts w"
proof -
  have "w1 = snd (wait_loop (now w) r w)"
    using assms by (simp add: waitForReleaseToDeploy_def case_prod_unfold)
  then show "heap w1 = heap w" and "puts w1 = puts w"
    by (simp_all add: wait_loop_heap wait_loop_puts)
qed

lemma puts_logf: "puts (logf l m w) = puts w"
  by (simp add: puts_def logf_def)

lemma updateStatus_valid:
  assumes v: "chartmgr < length (heap w)"
    and wt: "waitForReleaseToDeploy r w = (Inr werr, w1)"
  shows "fst (updateStatus c chartmgr r w) = Inr werr"
    and "puts (snd (updateStatus c chartmgr r w)) =
      puts w @
        [status_write c (heap w ! chartmgr) r
           (case werr of Some err \<Rightarrow> err | None \<Rightarrow> release_status r)]"
    and "heap (snd (updateStatus c chartmgr r w)) =
      heap w @
        [(heap w ! chartmgr)\<lparr>Status :=
           \<lparr>State = release_status r, ReleaseName = release_name r,
            Message = (case werr of Some err \<Rightarrow> err | None \<Rightarrow> release_status r)\<rparr>\<rparr>]"
proof -
  have h: "heap w1 = heap w" and p: "puts w1 = puts w"
    using waitForReleaseToDeploy_frame [OF wt] by simp_all
  have v1: "\<And>l m. chartmgr < length (heap (logf l m w1))"
    using v h by (simp add: logf_simps)
  have pw: "\<And>l m message. puts (snd (updateChartMgrStatus c chartmgr r message (logf l m w1))) =
      puts w @ [status_write c (heap w ! chartmgr) r message]"
    using h p
    by (simp add: updateChartMgrStatus_valid [OF v1] logf_simps puts_def status_write_def
        split: option.split)
  have hw: "\<And>l m message. heap (snd (updateChartMgrStatus c chartmgr r message (logf l m w1))) =
      heap w @ [(heap w ! chartmgr)\<lparr>Status :=
           \<lparr>State = release_status r, ReleaseName = release_name r, Message = message\<rparr>\<rparr>]"
    using h by (simp add: updateChartMgrStatus_valid [OF v1] logf_simps)
  have fw: "\<And>l m message. fst (updateChartMgrStatus c chartmgr r message (logf l m w1)) = Inr ()"
    by (simp add: updateChartMgrStatus_valid [OF v1])
  have d: "deref chartmgr w1 = Some (heap w ! chartmgr)"
    using v h by (simp add: deref_def)
  show "fst (updateStatus c chartmgr r w) = Inr werr"
    using fw by (cases werr) (simp_all add: updateStatus_def wt d case_prod_unfold)
  show "puts (snd (updateStatus c chartmgr r w)) =
      puts w @
        [status_write c (heap w ! chartmgr) r
           (case werr of Some err \<Rightarrow> err | None \<Rightarrow> release_status r)]"
    using fw pw by (cases werr) (simp_all add: updateStatus_def wt d case_prod_unfold)
  show "heap (snd (updateStatus c chartmgr r w)) =
      heap w @
        [(heap w ! chartmgr)\<lparr>Status :=
           \<lparr>State = release_status r, ReleaseName = release_name r,
            Message = (case werr of Some err \<Rightarrow> err | None \<Rightarrow> release_status r)\<rparr>\<rparr>]"
    using fw hw by (cases werr) (simp_all add: updateStatus_def wt d case_prod_unfold)
qed

lemma success_path_world:
  assumes v: "chartmgr < length (heap w)"
    and ex: "createOrUpdate_result c (heap w ! chartmgr) = (r, None)"
    and wt: "waitForReleaseToDeploy r (snd (CreateOrUpdateChartMgr c chartmgr w)) =
      (Inr werr, w1)"
  obtains w0 w2 where "CreateOrUpdateChartMgr c chartmgr w = (Inr (r, None), w0)"
    and "deref chartmgr w0 = Some (heap w ! chartmgr)"
    and "updateStatus c chartmgr r w0 = (Inr werr, w2)"
    and "deref chartmgr w2 = Some (heap w ! chartmgr)"
proof -
  define w0 where "w0 = w\<lparr>trace := trace w @ [CreateOrUpdateCall (heap w ! chartmgr)]\<rparr>"
  have c0: "CreateOrUpdateChartMgr c chartmgr w = (Inr (r, None), w0)"
    using v ex by (simp add: CreateOrUpdateChartMgr_valid w0_def)
  have h0: "heap w0 = heap w"
    by (simp add: w0_def)
  have v0: "chartmgr < length (heap w0)"
    using v by (simp add: h0)
  have wt0: "waitForReleaseToDeploy r w0 = (Inr werr, w1)"
    using wt by (simp add: c0)
  obtain w2 where us: "updateStatus c chartmgr r w0 = (Inr werr, w2)"
    using updateStatus_valid(1) [OF v0 wt0, of c]
    by (cases "updateStatus c chartmgr r w0") simp
  have "heap w2 = heap w0 @
        [(heap w0 ! chartmgr)\<lparr>Status :=
           \<lparr>State = release_status r, ReleaseName = release_name r,
            Message = (case werr of Some err \<Rightarrow> err | None \<Rightarrow> release_status r)\<rparr>\<rparr>]"
    using updateStatus_valid(3) [OF v0 wt0, of c] us by simp
  then have "chartmgr < length (heap w2)" and "heap w2 ! chartmgr = heap w ! chartmgr"
    using v unfolding h0 by (simp_all add: nth_append)
  then have d2: "deref chartmgr w2 = Some (heap w ! chartmgr)"
    by (simp add: deref_def)
  have d0: "deref chartmgr w0 = Some (heap w ! chartmgr)"
    using v by (simp add: deref_def h0)
  show thesis
    using c0 d0 us d2 by (rule that)
qed

lemma addFunc_success_path:
  assumes v: "chartmgr < length (heap w)"
    and ex: "createOrUpdate_result c (heap w ! chartmgr) = (r, None)"
    and wt: "waitForReleaseToDeploy r (snd (CreateOrUpdateChartMgr c chartmgr w)) =
      (Inr werr, w1)"
  shows "fst (addFunc c (ChartManagerPtr chartmgr) w) = Inr ()"
    and "puts (snd (addFunc c (ChartManagerPtr chartmgr) w)) =
      puts (snd (updateStatus c chartmgr r (snd (CreateOrUpdateChartMgr c chartmgr w))))"
proof -
  obtain w0 w2 where c0: "CreateOrUpdateChartMgr c chartmgr w = (Inr (r, None), w0)"
    and us: "updateStatus c chartmgr r w0 = (Inr werr, w2)"
    and d2: "deref chartmgr w2 = Some (heap w ! chartmgr)"
    using success_path_world [OF v ex wt] by blast
  show "fst (addFunc c (ChartManagerPtr chartmgr) w) = Inr ()"
    by (cases werr) (simp_all add: addFunc_def c0 us d2)
  show "puts (snd (addFunc c (ChartManagerPtr chartmgr) w)) =
      puts (snd (updateStatus c chartmgr r (snd (CreateOrUpdateChartMgr c chartmgr w))))"
    by (cases werr) (simp_all add: addFunc_def c0 us d2 puts_logf)
qed

lemma updateFunc_success_path:
  assumes v: "chartmgr < length (heap w)"
    and ex: "createOrUpdate_result c (heap w ! chartmgr) = (r, None)"
    and wt: "waitForReleaseToDeploy r (snd (CreateOrUpdateChartMgr c chartmgr w)) =
      (Inr werr, w1)"
    and co: "\<not> CreateOnly c (heap w ! chartmgr)"
  shows "fst (updateFunc c (ChartManagerPtr oldChartMgr) (ChartManagerPtr chartmgr) w) = Inr ()"
    and "puts (snd (updateFunc c (ChartManagerPtr oldChartMgr) (ChartManagerPtr chartmgr) w)) =
      puts (snd (updateStatus c chartmgr r (snd (CreateOrUpdateChartMgr c chartmgr w))))"
proof -
  obtain w0 w2 where c0: "CreateOrUpdateChartMgr c chartmgr w = (Inr (r, None), w0)"
    and d0: "deref chartmgr w0 = Some (heap w ! chartmgr)"
    and us: "updateStatus c chartmgr r w0 = (Inr werr, w2)"
    and d2: "deref chartmgr w2 = Some (heap w ! chartmgr)"
    using success_path_world [OF v ex wt] by blast
  show "fst (updateFunc c (ChartManagerPtr oldChartMgr) (ChartManagerPtr chartmgr) w) = Inr ()"
    using co by (cases werr) (simp_all add: updateFunc_def c0 d0 us d2)
  show "puts (snd (updateFunc c (ChartManagerPtr oldChartMgr) (ChartManagerPtr chartmgr) w)) =
      puts (snd (updateStatus c chartmgr r (snd (CreateOrUpdateChartMgr c chartmgr w))))"
    using co by (cases werr) (simp_all add: updateFunc_def c0 d0 us d2 puts_logf)
qed

lemma addFunc_success_result:
  assumes v: "chartmgr < length (heap w)"
    and ex: "createOrUpdate_result c (heap w ! chartmgr) = (r, None)"
    and wt: "waitForReleaseToDeploy r (snd (CreateOrUpdateChartMgr c chartmgr w)) =
      (Inr werr, w1)"
  shows "addFunc c (ChartManagerPtr chartmgr) w =
    (Inr (),
     case werr of
       Some err \<Rightarrow> snd (updateStatus c chartmgr r (snd (CreateOrUpdateChartMgr c chartmgr w)))
     | None \<Rightarrow>
         logf InfoLevel (''Created Chart Manager: '' @ Name (Meta (heap w ! chartmgr)))
           (logf InfoLevel
             (''Chart Manager '' @ Name (Meta (heap w ! chartmgr)) @ '' status is '' @
              release_status r)
             (snd (updateStatus c chartmgr r (snd (CreateOrUpdateChartMgr c chartmgr w))))))"
proof -
  obtain w0 w2 where c0: "CreateOrUpdateChartMgr c chartmgr w = (Inr (r, None), w0)"
    and us: "updateStatus c chartmgr r w0 = (Inr werr, w2)"
    and d2: "deref chartmgr w2 = Some (heap w ! chartmgr)"
    using success_path_world [OF v ex wt] by blast
  show ?thesis
    by (cases werr) (simp_all add: addFunc_def c0 us d2)
qed

lemma updateFunc_success_result:
  assumes v: "chartmgr < length (heap w)"
    and ex: "createOrUpdate_result c (heap w ! chartmgr) = (r, None)"
    and wt: "waitForReleaseToDeploy r (snd (CreateOrUpdateChartMgr c chartmgr w)) =
      (Inr werr, w1)"
    and co: "\<not> CreateOnly c (heap w ! chartmgr)"
  shows "updateFunc c (ChartManagerPtr oldChartMgr) (ChartManagerPtr chartmgr) w =
    (Inr (),
     case werr of
       Some err \<Rightarrow> snd (updateStatus c chartmgr r (snd (CreateOrUpdateChartMgr c chartmgr w)))
     | None \<Rightarrow>
         logf InfoLevel (''Updated Chart Manager: '' @ Name (Meta (heap w ! chartmgr)))
           (snd (updateStatus c chartmgr r (snd (CreateOrUpdateChartMgr c chartmgr w)))))"
proof -
  obtain w0 w2 where c0: "CreateOrUpdateChartMgr c chartmgr w = (Inr (r, None), w0)"
    and d0: "deref chartmgr w0 = Some (heap w ! chartmgr)"
    and us: "updateStatus c chartmgr r w0 = (Inr werr, w2)"
    and d2: "deref chartmgr w2 = Some (heap w ! chartmgr)"
    using success_path_world [OF v ex wt] by blast
  show ?thesis
    using co by (cases werr) (simp_all add: updateFunc_def c0 d0 us d2)
qed


text \<open>
  Claim C1 (post-apply sequence), as amended. After a successful create-or-update,
  whatever the outcome \<open>werr\<close> of the convergence wait: exactly one status write is
  issued, by \<open>updateStatus\<close>, by \<open>addFunc\<close> and, when \<open>CreateOnly\<close> does not hold, by
  \<open>updateFunc\<close>; its state and release name are those of the handle and its message
  is the error text when the wait failed, the status string of the handle when it
  succeeded. \<open>updateStatus\<close> returns the outcome of the wait to the handler. The
  handler has no result: after a failed wait it returns at once, without its closing
  log lines and with the status write in place; after a successful wait it logs its
  closing lines; it ends normally in both cases.
\<close>

theorem post_apply_one_status_write:
  assumes v: "chartmgr < length (heap w)"
    and ex: "createOrUpdate_result c (heap w ! chartmgr) = (r, None)"
    and wt: "waitForReleaseToDeploy r (snd (CreateOrUpdateChartMgr c chartmgr w)) =
      (Inr werr, w1)"
  shows "fst (updateStatus c chartmgr r (snd (CreateOrUpdateChartMgr c chartmgr w))) =
      Inr werr \<and>
    puts (snd (updateStatus c chartmgr r (snd (CreateOrUpdateChartMgr c chartmgr w)))) =
      puts w @
        [PutRequest (Name (Meta (heap w ! chartmgr))) (Namespace (Meta (heap w ! chartmgr)))
           (ChartMgrResourcePlural c)
           ((heap w ! chartmgr)\<lparr>Status :=
             \<lparr>State = release_status r, ReleaseName = release_name r,
              Message = (case werr of Some err \<Rightarrow> err | None \<Rightarrow> release_status r)\<rparr>\<rparr>)] \<and>
    puts (snd (addFunc c (ChartManagerPtr chartmgr) w)) =
      puts w @
        [PutRequest (Name (Meta (heap w ! chartmgr))) (Namespace (Meta (heap w ! chartmgr)))
           (ChartMgrResourcePlural c)
           ((heap w ! chartmgr)\<lparr>Status :=
             \<lparr>State = release_status r, ReleaseName = release_name r,
              Message = (case werr of Some err \<Rightarrow> err | None \<Rightarrow> release_status r)\<rparr>\<rparr>)] \<and>
    (\<not> CreateOnly c (heap w ! chartmgr) \<longrightarrow>
       puts (snd (updateFunc c (ChartManagerPtr oldChartMgr) (ChartManagerPtr chartmgr) w)) =
         puts w @
           [PutRequest (Name (Meta (heap w ! chartmgr))) (Namespace (Meta (heap w ! chartmgr)))
              (ChartMgrResourcePlural c)
              ((heap w ! chartmgr)\<lparr>Status :=
                \<lparr>State = release_status r, ReleaseName = release_name r,
                 Message = (case werr of Some err \<Rightarrow> err | None \<Rightarrow> release_status r)\<rparr>\<rparr>)]) \<and>
    addFunc c (ChartManagerPtr chartmgr) w =
      (Inr (),
       case werr of
         Some err \<Rightarrow> snd (updateStatus c chartmgr r (snd (CreateOrUpdateChartMgr c chartmgr w)))
       | None \<Rightarrow>
           logf InfoLevel (''Created Chart Manager: '' @ Name (Meta (heap w ! chartmgr)))
             (logf InfoLevel
               (''Chart Manager '' @ Name (Meta (heap w ! chartmgr)) @ '' status is '' @
                release_status r)
               (snd (updateStatus c chartmgr r (snd (CreateOrUpdateChartMgr c chartmgr w)))))) \<and>
    (\<not> CreateOnly c (heap w ! chartmgr) \<longrightarrow>
       updateFunc c (ChartManagerPtr oldChartMgr) (ChartManagerPtr chartmgr) w =
         (Inr (),
          case werr of
            Some err \<Rightarrow>
              snd (updateStatus c chartmgr r (snd (CreateOrUpdateChartMgr c chartmgr w)))
          | None \<Rightarrow>
              logf InfoLevel (''Updated Chart Manager: '' @ Name (Meta (heap w ! chartmgr)))
                (snd (updateStatus c chartmgr r (snd (CreateOrUpdateChartMgr c chartmgr w))))))"
proof -
  let ?w0 = "snd (CreateOrUpdateChartMgr c chartmgr w)"
  have v0: "chartmgr < length (heap ?w0)" and h0: "heap ?w0 = heap w" and
    p0: "puts ?w0 = puts w"
    using v by (simp_all add: CreateOrUpdateChartMgr_valid puts_def)
  have first: "fst (updateStatus c chartmgr r ?w0) = Inr werr \<and>
    puts (snd (updateStatus c chartmgr r ?w0)) =
      puts w @
        [PutRequest (Name (Meta (heap w ! chartmgr))) (Namespace (Meta (heap w ! chartmgr)))
           (ChartMgrResourcePlural c)
           ((heap w ! chartmgr)\<lparr>Status :=
             \<lparr>State = release_status r, ReleaseName = release_name r,
              Message = (case werr of Some err \<Rightarrow> err | None \<Rightarrow> release_status r)\<rparr>\<rparr>)]"
    using updateStatus_valid(1,2) [OF v0 wt, of c] h0 p0
    by (simp add: status_write_def)
  show ?thesis
    using first addFunc_success_path(2) [OF v ex wt]
      updateFunc_success_path(2) [OF v ex wt, of oldChartMgr]
      addFunc_success_result [OF v ex wt]
      updateFunc_success_result [OF v ex wt, of oldChartMgr]
    by simp
qed

theorem post_apply_one_status_write_witness:
  "fst (updateStatus
      (example_controller (example_release ''PENDING'' (\<lambda>t. False) 0, None) False None) 0
      (example_release ''PENDING'' (\<lambda>t. False) 0)
      (snd (CreateOrUpdateChartMgr
        (example_controller (example_release ''PENDING'' (\<lambda>t. False) 0, None) False None)
        0 example_world))) =
     Inr (Some ''Timed out waiting for release to deploy'') \<and>
   puts (snd (addFunc
      (example_controller (example_release ''PENDING'' (\<lambda>t. False) 0, None) False None)
      (ChartManagerPtr 0) example_world)) =
     [PutRequest ''demo'' ''default'' ''chartmgrs''
        (example_chartmgr\<lparr>Status :=
          \<lparr>State = ''PENDING'', ReleaseName = ''rel'',
           Message = ''Timed out waiting for release to deploy''\<rparr>\<rparr>)] \<and>
   fst (addFunc
      (example_controller (example_release ''PENDING'' (\<lambda>t. False) 0, None) False None)
      (ChartManagerPtr 0) example_world) = Inr ()"
proof -
  let ?r = "example_release ''PENDING'' (\<lambda>t. False) 0"
  let ?c = "example_controller (?r, None) False None"
  let ?w0 = "snd (CreateOrUpdateChartMgr ?c 0 example_world)"
  have v: "0 < length (heap example_world)"
    by (simp add: example_world_def)
  have ex: "createOrUpdate_result ?c (heap example_world ! 0) = (?r, None)"
    by (simp add: example_controller_def)
  have "fst (wait_loop (now ?w0) ?r ?w0) = Some ''Timed out waiting for release to deploy''"
    by (rule wait_loop_never_ready_before_deadline) (simp add: example_release_def)
  then have wt: "waitForReleaseToDeploy ?r ?w0 =
      (Inr (Some ''Timed out waiting for release to deploy''),
       snd (waitForReleaseToDeploy ?r ?w0))"
    by (simp add: waitForReleaseToDeploy_def case_prod_unfold)
  show ?thesis
    using post_apply_one_status_write [OF v ex wt]
    by (simp add: example_world_def example_controller_def example_release_def
        example_chartmgr_def puts_def)
qed

theorem post_apply_handler_counterexample:
  "fst (updateStatus
      (example_controller (example_release ''PENDING'' (\<lambda>t. False) 0, None) False None) 0
      (example_release ''PENDING'' (\<lambda>t. False) 0)
      (snd (CreateOrUpdateChartMgr
        (example_controller (example_release ''PENDING'' (\<lambda>t. False) 0, None) False None)
        0 example_world))) =
     Inr (Some ''Timed out waiting for release to deploy'') \<and>
   fst (addFunc
      (example_controller (example_release ''PENDING'' (\<lambda>t. False) 0, None) False None)
      (ChartManagerPtr 0) example_world) = Inr () \<and>
   fst (updateFunc
      (example_controller (example_release ''PENDING'' (\<lambda>t. False) 0, None) False None)
      (ChartManagerPtr 0) (ChartManagerPtr 0) example_world) = Inr ()"
proof -
  let ?r = "example_release ''PENDING'' (\<lambda>t. False) 0"
  let ?c = "example_controller (?r, None) False None"
  let ?w0 = "snd (CreateOrUpdateChartMgr ?c 0 example_world)"
  have v: "0 < length (heap example_world)"
    by (simp add: example_world_def)
  have v0: "0 < length (heap ?w0)"
    using v by (simp add: CreateOrUpdateChartMgr_valid [OF v])
  have ex: "createOrUpdate_result ?c (heap example_world ! 0) = (?r, None)"
    by (simp add: example_controller_def)
  have co: "\<not> CreateOnly ?c (heap example_world ! 0)"
    by (simp add: example_controller_def)
  have "fst (wait_loop (now ?w0) ?r ?w0) = Some ''Timed out waiting for release to deploy''"
    by (rule wait_loop_never_ready_before_deadline) (simp add: example_release_def)
  then have wt: "waitForReleaseToDeploy ?r ?w0 =
      (Inr (Some ''Timed out waiting for release to deploy''),
       snd (waitForReleaseToDeploy ?r ?w0))"
    by (simp add: waitForReleaseToDeploy_def case_prod_unfold)
  show ?thesis
    using updateStatus_valid(1) [OF v0 wt, of ?c] addFunc_success_path(1) [OF v ex wt]
      updateFunc_success_path(1) [OF v ex wt co, of 0]
    by simp
qed

text \<open>
  Claim C7 (a failed status write), as amended. When the backing store answers the
  PUT with an error, \<open>put\<close> returns that error to \<open>updateChartMgrStatus\<close>, which logs
  it, issues no second PUT and returns normally; \<open>updateChartMgrStatus\<close> has no result,
  so the failure is not returned to its caller: \<open>updateStatus\<close> returns the outcome of
  the convergence wait whatever the store answered.
\<close>
theorem status_write_failure_logged_not_returned:
  assumes v: "chartmgr < length (heap w)"
    and fail: "put_result c (Name (Meta (heap w ! chartmgr))) (Namespace (Meta (heap w ! chartmgr)))
      ((heap w ! chartmgr)\<lparr>Status :=
        \<lparr>State = release_status r, ReleaseName = release_name r, Message = message\<rparr>\<rparr>) =
      Some err"
  shows "fst (put c (length (heap w))
        (w\<lparr>heap := heap w @
          [(heap w ! chartmgr)\<lparr>Status :=
            \<lparr>State = release_status r, ReleaseName = release_name r,
             Message = message\<rparr>\<rparr>]\<rparr>)) = Inr (Some err) \<and>
    updateChartMgrStatus c chartmgr r message w =
      (Inr (),
       w\<lparr>heap := heap w @
           [(heap w ! chartmgr)\<lparr>Status :=
             \<lparr>State = release_status r, ReleaseName = release_name r,
              Message = message\<rparr>\<rparr>],
         trace := trace w @
           [LogEntry DebugLevel
              (''Updating Chart Manager status: state='' @ release_status r @
               '' release='' @ release_name r),
            PutRequest (Name (Meta (heap w ! chartmgr))) (Namespace (Meta (heap w ! chartmgr)))
              (ChartMgrResourcePlural c)
              ((heap w ! chartmgr)\<lparr>Status :=
                \<lparr>State = release_status r, ReleaseName = release_name r,
                 Message = message\<rparr>\<rparr>),
            LogEntry ErrorLevel (''Failed to update status: '' @ err)]\<rparr>) \<and>
    (\<forall>werr w1. waitForReleaseToDeploy r w = (Inr werr, w1) \<longrightarrow>
       fst (updateStatus c chartmgr r w) = Inr werr)"
proof (intro conjI allI impI)
  show "fst (put c (length (heap w))
        (w\<lparr>heap := heap w @
          [(heap w ! chartmgr)\<lparr>Status :=
            \<lparr>State = release_status r, ReleaseName = release_name r,
             Message = message\<rparr>\<rparr>]\<rparr>)) = Inr (Some err)"
    using fail by (simp add: put_def deref_def)
  show "updateChartMgrStatus c chartmgr r message w =
      (Inr (),
       w\<lparr>heap := heap w @
           [(heap w ! chartmgr)\<lparr>Status :=
             \<lparr>State = release_status r, ReleaseName = release_name r,
              Message = message\<rparr>\<rparr>],
         trace := trace w @
           [LogEntry DebugLevel
              (''Updating Chart Manager status: state='' @ release_status r @
               '' release='' @ release_name r),
            PutRequest (Name (Meta (heap w ! chartmgr))) (Namespace (Meta (heap w ! chartmgr)))
              (ChartMgrResourcePlural c)
              ((heap w ! chartmgr)\<lparr>Status :=
                \<lparr>State = release_status r, ReleaseName = release_name r,
                 Message = message\<rparr>\<rparr>),
            LogEntry ErrorLevel (''Failed to update status: '' @ err)]\<rparr>)"
    using fail by (simp add: updateChartMgrStatus_valid [OF v] status_write_def)
next
  fix werr w1
  assume "waitForReleaseToDeploy r w = (Inr werr, w1)"
  then show "fst (updateStatus c chartmgr r w) = Inr werr"
    by (rule updateStatus_valid(1) [OF v])
qed

theorem status_write_failure_logged_not_returned_witness:
  "updateChartMgrStatus (example_controller
      (example_release ''DEPLOYED'' (\<lambda>t. True) 0, None) False (Some ''conflict'')) 0
      (example_release ''DEPLOYED'' (\<lambda>t. True) 0) ''DEPLOYED'' example_world =
     (Inr (),
      example_world\<lparr>heap :=
          [example_chartmgr,
           example_chartmgr\<lparr>Status :=
             \<lparr>State = ''DEPLOYED'', ReleaseName = ''rel'', Message = ''DEPLOYED''\<rparr>\<rparr>],
        trace :=
          [LogEntry DebugLevel ''Updating Chart Manager status: state=DEPLOYED release=rel'',
           PutRequest ''demo'' ''default'' ''chartmgrs''
             (example_chartmgr\<lparr>Status :=
               \<lparr>State = ''DEPLOYED'', ReleaseName = ''rel'', Message = ''DEPLOYED''\<rparr>\<rparr>),
           LogEntry ErrorLevel ''Failed to update status: conflict'']\<rparr>)"
  using status_write_failure_logged_not_returned
    [of 0 example_world "example_controller
        (example_release ''DEPLOYED'' (\<lambda>t. True) 0, None) False (Some ''conflict'')"
      "example_release ''DEPLOYED'' (\<lambda>t. True) 0" "''DEPLOYED''" "''conflict''"]
  by (simp add: example_world_def example_controller_def example_release_def
      example_chartmgr_def)

theorem status_write_failure_counterexample:
  "updateStatus (example_controller
      (example_release ''DEPLOYED'' (\<lambda>t. True) 0, None) False (Some ''conflict'')) 0
      (example_release ''DEPLOYED'' (\<lambda>t. True) 0) example_world =
     (Inr None,
      example_world\<lparr>heap :=
          [example_chartmgr,
           example_chartmgr\<lparr>Status :=
             \<lparr>State = ''DEPLOYED'', ReleaseName = ''rel'', Message = ''DEPLOYED''\<rparr>\<rparr>],
        trace :=
          [LogEntry DebugLevel ''Checking status of release rel'',
           DeployedCall ''rel'' 0,
           LogEntry InfoLevel ''Chart Manager demo release rel status is Deployed'',
           LogEntry DebugLevel ''Updating Chart Manager status: state=DEPLOYED release=rel'',
           PutRequest ''demo'' ''default'' ''chartmgrs''
             (example_chartmgr\<lparr>Status :=
               \<lparr>State = ''DEPLOYED'', ReleaseName = ''rel'', Message = ''DEPLOYED''\<rparr>\<rparr>),
           LogEntry ErrorLevel ''Failed to update status: conflict'']\<rparr>) \<and>
   fst (updateChartMgrStatus (example_controller
       (example_release ''DEPLOYED'' (\<lambda>t. True) 0, None) False (Some ''conflict'')) 0
      (example_release ''DEPLOYED'' (\<lambda>t. True) 0) ''DEPLOYED'' example_world) =
   fst (updateChartMgrStatus (example_controller
       (example_release ''DEPLOYED'' (\<lambda>t. True) 0, None) False None) 0
      (example_release ''DEPLOYED'' (\<lambda>t. True) 0) ''DEPLOYED'' example_world)"
  by (simp add: updateStatus_def waitForReleaseToDeploy_def wait_loop_ready check_events_def
      updateChartMgrStatus_def DeepCopy_def put_def set_Status_def deref_def logf_def
      example_world_def example_controller_def example_release_def example_chartmgr_def
      Minute_def Second_def)

end
